theory Spec2Isabelle
  imports Main "HOL-Library.Word" "HOL-Library.Sublist"
begin

section \<open>Attribute values of the plugin framework\<close>

text \<open>
  The resource model of \<^verbatim>\<open>service.go\<close> holds its fields as framework values
  (\<^verbatim>\<open>types.String\<close>, \<^verbatim>\<open>types.Bool\<close>, \<^verbatim>\<open>types.Int64\<close>). Such a value is null, unknown
  or known; Go's \<^verbatim>\<open>!=\<close> on two of them is structural equality, which is equality of
  this datatype.
\<close>

datatype 'a attrValue = Null | Unknown | Known 'a

type_synonym int64 = "64 word"

abbreviation StringValue :: "string \<Rightarrow> string attrValue" where
  "StringValue \<equiv> Known"

abbreviation BoolValue :: "bool \<Rightarrow> bool attrValue" where
  "BoolValue \<equiv> Known"

abbreviation Int64Value :: "int64 \<Rightarrow> int64 attrValue" where
  "Int64Value \<equiv> Known"

text \<open>\<^verbatim>\<open>ValueString()\<close>: the known value, the empty string for null and unknown.\<close>

fun ValueString :: "string attrValue \<Rightarrow> string" where
  "ValueString (Known v) = v"
| "ValueString Null = []"
| "ValueString Unknown = []"

fun ValueBool :: "bool attrValue \<Rightarrow> bool" where
  "ValueBool (Known v) = v"
| "ValueBool Null = False"
| "ValueBool Unknown = False"

fun ValueInt64 :: "int64 attrValue \<Rightarrow> int64" where
  "ValueInt64 (Known v) = v"
| "ValueInt64 Null = 0"
| "ValueInt64 Unknown = 0"

text \<open>\<^verbatim>\<open>ValueBoolPointer()\<close>: nil for null, otherwise a pointer to the held value.\<close>

fun ValueBoolPointer :: "bool attrValue \<Rightarrow> bool option" where
  "ValueBoolPointer Null = None"
| "ValueBoolPointer Unknown = Some False"
| "ValueBoolPointer (Known v) = Some v"

text \<open>
  \<^verbatim>\<open>String()\<close> is the human-readable form of a string value: the markers
  \<^verbatim>\<open><unknown>\<close> and \<^verbatim>\<open><null>\<close>, and for a known value the Go format \<^verbatim>\<open>%q\<close>, a
  double-quoted literal. The escaping of the characters between the two quotes
  is the parameter \<open>esc\<close>.
\<close>

definition Sprintf_q :: "(string \<Rightarrow> string) \<Rightarrow> string \<Rightarrow> string" where
  "Sprintf_q esc v = CHR 0x22 # esc v @ [CHR 0x22]"

fun String_repr :: "(string \<Rightarrow> string) \<Rightarrow> string attrValue \<Rightarrow> string" where
  "String_repr esc Unknown = ''<unknown>''"
| "String_repr esc Null = ''<null>''"
| "String_repr esc (Known v) = Sprintf_q esc v"

section \<open>Data model\<close>

record IpAccess =
  ipa_Source :: string
  ipa_Description :: string

record IpAccessModel =
  ipm_Source :: "string attrValue"
  ipm_Description :: "string attrValue"

record Endpoint =
  ep_Protocol :: string
  ep_Host :: string
  ep_Port :: int64

text \<open>An object of \<^verbatim>\<open>endpointObjectType\<close>: protocol, host and port.\<close>

record endpointObject =
  eo_protocol :: "string attrValue"
  eo_host :: "string attrValue"
  eo_port :: "int64 attrValue"

text \<open>The remote state payload \<^verbatim>\<open>Service\<close>, with the fields that \<^verbatim>\<open>service.go\<close> reads and writes.\<close>

record Service =
  svc_Id :: string
  svc_Name :: string
  svc_Provider :: string
  svc_Region :: string
  svc_Tier :: string
  svc_IdleScaling :: bool
  svc_IpAccessList :: "IpAccess list"
  svc_MinTotalMemoryGb :: int64
  svc_MaxTotalMemoryGb :: int64
  svc_IdleTimeoutMinutes :: int64
  svc_State :: string
  svc_Endpoints :: "Endpoint list"

record IpAccessUpdate =
  iau_Add :: "IpAccess list"
  iau_Remove :: "IpAccess list"

text \<open>\<^verbatim>\<open>ServiceUpdate.IpAccessList\<close> is a pointer: \<open>None\<close> is nil.\<close>

record ServiceUpdate =
  upd_Name :: string
  upd_IpAccessList :: "IpAccessUpdate option"

text \<open>\<^verbatim>\<open>ServiceScalingUpdate.IdleScaling\<close> is a \<^verbatim>\<open>*bool\<close>; the other fields are plain integers.\<close>

record ServiceScalingUpdate =
  scl_IdleScaling :: "bool option"
  scl_MinTotalMemoryGb :: int64
  scl_MaxTotalMemoryGb :: int64
  scl_IdleTimeoutMinutes :: int64

record ServicePasswordUpdateResult =
  pur_Password :: string

record serviceResourceModel =
  mdl_ID :: "string attrValue"
  mdl_Name :: "string attrValue"
  mdl_Password :: "string attrValue"
  mdl_Endpoints :: "endpointObject list attrValue"
  mdl_CloudProvider :: "string attrValue"
  mdl_Region :: "string attrValue"
  mdl_Tier :: "string attrValue"
  mdl_IdleScaling :: "bool attrValue"
  mdl_IpAccessList :: "IpAccessModel list"
  mdl_MinTotalMemoryGb :: "int64 attrValue"
  mdl_MaxTotalMemoryGb :: "int64 attrValue"
  mdl_IdleTimeoutMinutes :: "int64 attrValue"
  mdl_LastUpdated :: "string attrValue"

section \<open>The remote collaborator\<close>

text \<open>
  The client talks to a remote system, whose state is the type \<open>'w\<close>. Each method
  takes the state and gives its result and the next state; an error is the text of
  \<^verbatim>\<open>err.Error()\<close>. A successful call gives a payload (a non-nil pointer). The body
  of a password update is of the type \<open>'p\<close>, built by
  \<^verbatim>\<open>ServicePasswordUpdateFromPlainPassword\<close>.
\<close>

record ('w, 'p) Client =
  CreateService :: "Service \<Rightarrow> 'w \<Rightarrow> (string + Service \<times> string) \<times> 'w"
  GetService :: "string \<Rightarrow> 'w \<Rightarrow> (string + Service) \<times> 'w"
  UpdateService :: "string \<Rightarrow> ServiceUpdate \<Rightarrow> 'w \<Rightarrow> (string + Service) \<times> 'w"
  UpdateServiceScaling :: "string \<Rightarrow> ServiceScalingUpdate \<Rightarrow> 'w \<Rightarrow> (string + Service) \<times> 'w"
  UpdateServicePassword :: "string \<Rightarrow> 'p \<Rightarrow> 'w \<Rightarrow> (string + ServicePasswordUpdateResult) \<times> 'w"
  DeleteService :: "string \<Rightarrow> 'w \<Rightarrow> (string + unit) \<times> 'w"

text \<open>
  What the resource uses beside the client: the constructor of a password update,
  the escaping of \<^verbatim>\<open>%q\<close>, and the clock (\<^verbatim>\<open>time.Now().Format(time.RFC850)\<close>).
\<close>

record ('w, 'p) serviceResource =
  client :: "('w, 'p) Client"
  ServicePasswordUpdateFromPlainPassword :: "string \<Rightarrow> 'p"
  quoteEscape :: "string \<Rightarrow> string"
  timeNow :: "'w \<Rightarrow> string"

datatype 'p call =
  CreateServiceCall Service
| GetServiceCall string
| UpdateServiceCall string ServiceUpdate
| UpdateServiceScalingCall string ServiceScalingUpdate
| UpdateServicePasswordCall string 'p
| DeleteServiceCall string

text \<open>
  A run carries the remote state and the trace of the remote calls issued so far,
  each with a flag that says whether it returned an error.
\<close>

record ('w, 'p) run =
  world :: 'w
  trace :: "('p call \<times> bool) list"

definition invoke ::
  "'p call \<Rightarrow> ('w \<Rightarrow> (string + 'a) \<times> 'w) \<Rightarrow> ('w, 'p) run \<Rightarrow> (string + 'a) \<times> ('w, 'p) run" where
  "invoke c f r =
     (case f (world r) of
        (res, w') \<Rightarrow> (res, \<lparr>world = w', trace = trace r @ [(c, isl res)]\<rparr>))"

section \<open>Diagnostics and outcomes\<close>

datatype diagnostic =
  AttributeError string string string
| ErrorDiag string string

text \<open>Every diagnostic that \<^verbatim>\<open>service.go\<close> adds is an error, so \<^verbatim>\<open>HasError\<close> asks for any.\<close>

definition HasError :: "diagnostic list \<Rightarrow> bool" where
  "HasError ds = (ds \<noteq> [])"

record response =
  Diagnostics :: "diagnostic list"
  StateSet :: "serviceResourceModel option"

datatype panic = NilPointerDereference | IndexOutOfRange

datatype outcome = Panicked panic | Returned response

section \<open>Helpers of the package that \<^verbatim>\<open>service.go\<close> calls\<close>

text \<open>
  Modelled from the spec: the generic helper \<^verbatim>\<open>diffArrays\<close> is called by \<^verbatim>\<open>Update\<close>
  and defined in another file of the package. The spec gives its contract:
  \<open>toAdd = new - old\<close> and \<open>toRemove = old - new\<close>, computed by key equality.
\<close>

definition diffArrays :: "'a list \<Rightarrow> 'a list \<Rightarrow> ('a \<Rightarrow> string) \<Rightarrow> 'a list \<times> 'a list" where
  "diffArrays old new key =
     (filter (\<lambda>b. key b \<notin> key ` set old) new,
      filter (\<lambda>a. key a \<notin> key ` set new) old)"

text \<open>
  Modelled from the spec: the generic helper \<^verbatim>\<open>equal\<close> is called by \<^verbatim>\<open>Update\<close> and
  defined in another file of the package. The spec: the collection is a set, the
  identity of an entry is the pair of its source and description, and two
  collections are equal iff they contain the same keys.
\<close>

definition equal :: "IpAccessModel list \<Rightarrow> IpAccessModel list \<Rightarrow> bool" where
  "equal a b = (set a = set b)"

section \<open>Update\<close>

text \<open>Lines 330 to 352: one attribute error for each immutable field that differs.\<close>

definition immutableDiagnostics :: "serviceResourceModel \<Rightarrow> serviceResourceModel \<Rightarrow> diagnostic list" where
  "immutableDiagnostics plan state =
     (if mdl_CloudProvider plan \<noteq> mdl_CloudProvider state
      then [AttributeError ''cloud_provider'' ''Invalid Update''
              ''ClickHouse does not support changing service cloud providers'']
      else []) @
     (if mdl_Region plan \<noteq> mdl_Region state
      then [AttributeError ''region'' ''Invalid Update''
              ''ClickHouse does not support changing service regions'']
      else []) @
     (if mdl_Tier plan \<noteq> mdl_Tier state
      then [AttributeError ''tier'' ''Invalid Update''
              ''ClickHouse does not support changing service tiers'']
      else [])"

definition toIpAccess :: "IpAccessModel \<Rightarrow> IpAccess" where
  "toIpAccess item =
     \<lparr>ipa_Source = ValueString (ipm_Source item),
      ipa_Description = ValueString (ipm_Description item)\<rparr>"

definition toIpAccessModel :: "IpAccess \<Rightarrow> IpAccessModel" where
  "toIpAccessModel ipAccess =
     \<lparr>ipm_Source = StringValue (ipa_Source ipAccess),
      ipm_Description = StringValue (ipa_Description ipAccess)\<rparr>"

text \<open>The key function of line 397: \<^verbatim>\<open>fmt.Sprintf("%s:%s", a.Source, a.Description)\<close>.\<close>

definition ipAccessKey :: "IpAccess \<Rightarrow> string" where
  "ipAccessKey a = ipa_Source a @ '':'' @ ipa_Description a"

text \<open>Lines 360 to 404: the body of the general update and the flag \<^verbatim>\<open>serviceChange\<close>.\<close>

definition serviceUpdateOf :: "serviceResourceModel \<Rightarrow> serviceResourceModel \<Rightarrow> ServiceUpdate \<times> bool" where
  "serviceUpdateOf plan state =
     (let service0 = \<lparr>upd_Name = [], upd_IpAccessList = None\<rparr>;
          (service1, change1) =
            (if mdl_Name plan \<noteq> mdl_Name state
             then (service0\<lparr>upd_Name := ValueString (mdl_Name plan)\<rparr>, True)
             else (service0, False))
      in if \<not> equal (mdl_IpAccessList plan) (mdl_IpAccessList state)
         then (let ipAccessListOld = map toIpAccess (mdl_IpAccessList state);
                   ipAccessListNew = map toIpAccess (mdl_IpAccessList plan);
                   (add, remove) = diffArrays ipAccessListOld ipAccessListNew ipAccessKey
               in (service1\<lparr>upd_IpAccessList := Some \<lparr>iau_Add = add, iau_Remove = remove\<rparr>\<rparr>, True))
         else (service1, change1))"

text \<open>Lines 420 to 442: the body of the scaling update and the flag \<^verbatim>\<open>scalingChange\<close>.\<close>

definition scalingUpdateOf ::
  "serviceResourceModel \<Rightarrow> serviceResourceModel \<Rightarrow> ServiceScalingUpdate \<times> bool" where
  "scalingUpdateOf plan state =
     (let scaling0 = \<lparr>scl_IdleScaling = ValueBoolPointer (mdl_IdleScaling state),
                      scl_MinTotalMemoryGb = 0, scl_MaxTotalMemoryGb = 0,
                      scl_IdleTimeoutMinutes = 0\<rparr>;
          (scaling1, change1) =
            (if mdl_IdleScaling plan \<noteq> mdl_IdleScaling state
             then (scaling0\<lparr>scl_IdleScaling := Some (ValueBool (mdl_IdleScaling plan))\<rparr>, True)
             else (scaling0, False));
          (scaling2, change2) =
            (if mdl_MinTotalMemoryGb plan \<noteq> mdl_MinTotalMemoryGb state
             then (scaling1\<lparr>scl_MinTotalMemoryGb := ValueInt64 (mdl_MinTotalMemoryGb plan)\<rparr>, True)
             else (scaling1, change1));
          (scaling3, change3) =
            (if mdl_MaxTotalMemoryGb plan \<noteq> mdl_MaxTotalMemoryGb state
             then (scaling2\<lparr>scl_MaxTotalMemoryGb := ValueInt64 (mdl_MaxTotalMemoryGb plan)\<rparr>, True)
             else (scaling2, change2))
      in if mdl_IdleTimeoutMinutes plan \<noteq> mdl_IdleTimeoutMinutes state
         then (scaling3\<lparr>scl_IdleTimeoutMinutes := ValueInt64 (mdl_IdleTimeoutMinutes plan)\<rparr>, True)
         else (scaling3, change3))"

text \<open>
  The loop of lines 485 to 490 (and 244 to 249 in \<^verbatim>\<open>Create\<close>): the entry at index
  \<open>i\<close> of the returned list is stored at index \<open>i\<close> of the slice of the plan. Go
  panics when the index is not below the length of the slice.
\<close>

fun writeBackIpAccess :: "nat \<Rightarrow> IpAccess list \<Rightarrow> IpAccessModel list \<Rightarrow> panic + IpAccessModel list" where
  "writeBackIpAccess i [] dst = Inr dst"
| "writeBackIpAccess i (ipAccess # rest) dst =
     (if i < length dst
      then writeBackIpAccess (Suc i) rest (dst[i := toIpAccessModel ipAccess])
      else Inl IndexOutOfRange)"

text \<open>
  Lines 474 to 497. \<open>s\<close> is the pointer \<^verbatim>\<open>var s *Service\<close>: \<open>None\<close> when no call has
  assigned it, and reading \<^verbatim>\<open>s.Id\<close> through it then panics.
\<close>

definition updateWriteBack ::
  "('w, 'p) serviceResource \<Rightarrow> serviceResourceModel \<Rightarrow> diagnostic list \<Rightarrow> Service option \<Rightarrow>
   string \<Rightarrow> ('w, 'p) run \<Rightarrow> outcome \<times> ('w, 'p) run" where
  "updateWriteBack res plan diags sp password r =
     (case sp of
        None \<Rightarrow> (Panicked NilPointerDereference, r)
      | Some s \<Rightarrow>
          (case writeBackIpAccess 0 (svc_IpAccessList s) (mdl_IpAccessList plan) of
             Inl p \<Rightarrow> (Panicked p, r)
           | Inr ipAccessList \<Rightarrow>
               (Returned
                  \<lparr>Diagnostics = diags,
                   StateSet = Some (plan
                     \<lparr>mdl_ID := StringValue (svc_Id s),
                      mdl_Name := StringValue (svc_Name s),
                      mdl_Password := StringValue password,
                      mdl_CloudProvider := StringValue (svc_Provider s),
                      mdl_Region := StringValue (svc_Region s),
                      mdl_Tier := StringValue (svc_Tier s),
                      mdl_IdleScaling := BoolValue (svc_IdleScaling s),
                      mdl_IpAccessList := ipAccessList,
                      mdl_MinTotalMemoryGb := Int64Value (svc_MinTotalMemoryGb s),
                      mdl_MaxTotalMemoryGb := Int64Value (svc_MaxTotalMemoryGb s),
                      mdl_IdleTimeoutMinutes := Int64Value (svc_IdleTimeoutMinutes s),
                      mdl_LastUpdated := StringValue (timeNow res (world r))\<rparr>)\<rparr>, r)))"

text \<open>Lines 456 to 472: the credential.\<close>

definition updatePassword ::
  "('w, 'p) serviceResource \<Rightarrow> serviceResourceModel \<Rightarrow> serviceResourceModel \<Rightarrow> diagnostic list \<Rightarrow>
   Service option \<Rightarrow> ('w, 'p) run \<Rightarrow> outcome \<times> ('w, 'p) run" where
  "updatePassword res plan state diags sp r =
     (let serviceId = ValueString (mdl_ID state);
          password0 = String_repr (quoteEscape res) (mdl_Password state)
      in if mdl_Password plan \<noteq> mdl_Password state
         then (let password1 = ValueString (mdl_Password plan);
                   body = ServicePasswordUpdateFromPlainPassword res password1
               in case invoke (UpdateServicePasswordCall serviceId body)
                         (UpdateServicePassword (client res) serviceId body) r of
                    (Inl err, r') \<Rightarrow>
                      (Returned
                         \<lparr>Diagnostics = diags @
                            [ErrorDiag ''Error Updating ClickHouse Service Password''
                               (''Could not update service password, unexpected error: '' @ err)],
                          StateSet = None\<rparr>, r')
                  | (Inr result, r') \<Rightarrow>
                      updateWriteBack res plan diags sp
                        (if length (pur_Password result) > 0 then pur_Password result else password1) r')
         else updateWriteBack res plan diags sp password0 r)"

text \<open>Lines 420 to 454: the scaling call.\<close>

definition updateScaling ::
  "('w, 'p) serviceResource \<Rightarrow> serviceResourceModel \<Rightarrow> serviceResourceModel \<Rightarrow> diagnostic list \<Rightarrow>
   Service option \<Rightarrow> ('w, 'p) run \<Rightarrow> outcome \<times> ('w, 'p) run" where
  "updateScaling res plan state diags sp r =
     (let serviceId = ValueString (mdl_ID state);
          (serviceScaling, scalingChange) = scalingUpdateOf plan state
      in if scalingChange
         then (case invoke (UpdateServiceScalingCall serviceId serviceScaling)
                       (UpdateServiceScaling (client res) serviceId serviceScaling) r of
                 (Inl err, r') \<Rightarrow>
                   (Returned
                      \<lparr>Diagnostics = diags @
                         [ErrorDiag ''Error Updating ClickHouse Service Scaling''
                            (''Could not update service scaling, unexpected error: '' @ err)],
                       StateSet = None\<rparr>, r')
               | (Inr s, r') \<Rightarrow> updatePassword res plan state diags (Some s) r')
         else updatePassword res plan state diags sp r)"

text \<open>
  \<^verbatim>\<open>Update\<close>, lines 323 to 498. The plan and the prior state are the decoded models
  (\<^verbatim>\<open>req.Plan.Get\<close> and \<^verbatim>\<open>req.State.Get\<close> add no diagnostic), and \<^verbatim>\<open>resp.State.Set\<close>
  stores the model it is given.
\<close>

definition Update ::
  "('w, 'p) serviceResource \<Rightarrow> serviceResourceModel \<Rightarrow> serviceResourceModel \<Rightarrow>
   ('w, 'p) run \<Rightarrow> outcome \<times> ('w, 'p) run" where
  "Update res plan state r =
     (let diags = immutableDiagnostics plan state
      in if HasError diags
         then (Returned \<lparr>Diagnostics = diags, StateSet = None\<rparr>, r)
         else (let serviceId = ValueString (mdl_ID state);
                   (service, serviceChange) = serviceUpdateOf plan state
               in if serviceChange
                  then (case invoke (UpdateServiceCall serviceId service)
                                (UpdateService (client res) serviceId service) r of
                          (Inl err, r') \<Rightarrow>
                            (Returned
                               \<lparr>Diagnostics = diags @
                                  [ErrorDiag ''Error Updating ClickHouse Service''
                                     (''Could not update service, unexpected error: '' @ err)],
                                StateSet = None\<rparr>, r')
                        | (Inr s, r') \<Rightarrow> updateScaling res plan state diags (Some s) r')
                  else updateScaling res plan state diags None r))"

section \<open>Create\<close>

text \<open>
  The polling loop of lines 204 to 219: fetch the service by the identity of the
  last payload, stop on an error or on a status other than \<^verbatim>\<open>provisioning\<close>, else
  go round again. The loop has no bound, so the model is a partial function: \<open>None\<close>
  is a loop that never ends. The five-second sleep has no effect on the data.
\<close>

partial_function (option) pollService ::
  "('w, 'p) serviceResource \<Rightarrow> string \<Rightarrow> ('w, 'p) run \<Rightarrow> ((string + Service) \<times> ('w, 'p) run) option" where
  "pollService res ident r =
     (case invoke (GetServiceCall ident) (GetService (client res) ident) r of
        (Inl err, r') \<Rightarrow> Some (Inl err, r')
      | (Inr s, r') \<Rightarrow>
          if svc_State s \<noteq> ''provisioning'' then Some (Inr s, r')
          else pollService res (svc_Id s) r')"

text \<open>Lines 177 to 192: the request body built from the plan. No endpoint is set in it.\<close>

definition createRequest :: "serviceResourceModel \<Rightarrow> Service" where
  "createRequest plan =
     \<lparr>svc_Id = [],
      svc_Name = ValueString (mdl_Name plan),
      svc_Provider = ValueString (mdl_CloudProvider plan),
      svc_Region = ValueString (mdl_Region plan),
      svc_Tier = ValueString (mdl_Tier plan),
      svc_IdleScaling = ValueBool (mdl_IdleScaling plan),
      svc_IpAccessList = map toIpAccess (mdl_IpAccessList plan),
      svc_MinTotalMemoryGb = ValueInt64 (mdl_MinTotalMemoryGb plan),
      svc_MaxTotalMemoryGb = ValueInt64 (mdl_MaxTotalMemoryGb plan),
      svc_IdleTimeoutMinutes = ValueInt64 (mdl_IdleTimeoutMinutes plan),
      svc_State = [],
      svc_Endpoints = []\<rparr>"

definition toEndpointObject :: "Endpoint \<Rightarrow> endpointObject" where
  "toEndpointObject endpoint =
     \<lparr>eo_protocol = StringValue (ep_Protocol endpoint),
      eo_host = StringValue (ep_Host endpoint),
      eo_port = Int64Value (ep_Port endpoint)\<rparr>"

text \<open>
  Lines 233 to 271. \<open>service\<close> is the request body of line 177 and \<open>s\<close> the last
  payload fetched by the loop; the endpoints are read from \<open>service\<close> (line 252).
\<close>

definition createWriteBack ::
  "('w, 'p) serviceResource \<Rightarrow> serviceResourceModel \<Rightarrow> Service \<Rightarrow> Service \<Rightarrow> string \<Rightarrow>
   ('w, 'p) run \<Rightarrow> outcome \<times> ('w, 'p) run" where
  "createWriteBack res plan service s password r =
     (case writeBackIpAccess 0 (svc_IpAccessList s) (mdl_IpAccessList plan) of
        Inl p \<Rightarrow> (Panicked p, r)
      | Inr ipAccessList \<Rightarrow>
          (Returned
             \<lparr>Diagnostics = [],
              StateSet = Some (plan
                \<lparr>mdl_ID := StringValue (svc_Id s),
                 mdl_Name := StringValue (svc_Name s),
                 mdl_Password := StringValue password,
                 mdl_CloudProvider := StringValue (svc_Provider s),
                 mdl_Region := StringValue (svc_Region s),
                 mdl_Tier := StringValue (svc_Tier s),
                 mdl_IdleScaling := BoolValue (svc_IdleScaling s),
                 mdl_IpAccessList := ipAccessList,
                 mdl_MinTotalMemoryGb := Int64Value (svc_MinTotalMemoryGb s),
                 mdl_MaxTotalMemoryGb := Int64Value (svc_MaxTotalMemoryGb s),
                 mdl_IdleTimeoutMinutes := Int64Value (svc_IdleTimeoutMinutes s),
                 mdl_Endpoints := Known (map toEndpointObject (svc_Endpoints service)),
                 mdl_LastUpdated := StringValue (timeNow res (world r))\<rparr>)\<rparr>, r))"

text \<open>
  Lines 221 to 231. \<open>generated\<close> is the variable \<^verbatim>\<open>password\<close> as \<^verbatim>\<open>CreateService\<close>
  returned it; the statement \<^verbatim>\<open>password = plan.Password.ValueString()\<close> in the
  header of the \<^verbatim>\<open>if\<close> assigns to that same variable.
\<close>

definition createPassword ::
  "('w, 'p) serviceResource \<Rightarrow> serviceResourceModel \<Rightarrow> Service \<Rightarrow> Service \<Rightarrow> string \<Rightarrow>
   ('w, 'p) run \<Rightarrow> outcome \<times> ('w, 'p) run" where
  "createPassword res plan service s generated r =
     (let password = generated;
          password = ValueString (mdl_Password plan)
      in if length password > 0
         then (let body = ServicePasswordUpdateFromPlainPassword res password
               in case invoke (UpdateServicePasswordCall (svc_Id s) body)
                         (UpdateServicePassword (client res) (svc_Id s) body) r of
                    (Inl err, r') \<Rightarrow>
                      (Returned
                         \<lparr>Diagnostics =
                            [ErrorDiag ''Error setting service password''
                               (''Could not set service password after creation, unexpected error: '' @ err)],
                          StateSet = None\<rparr>, r')
                  | (Inr result, r') \<Rightarrow> createWriteBack res plan service s password r')
         else createWriteBack res plan service s password r)"

text \<open>\<^verbatim>\<open>Create\<close>, lines 167 to 272; \<open>None\<close> when the polling loop never ends.\<close>

definition Create ::
  "('w, 'p) serviceResource \<Rightarrow> serviceResourceModel \<Rightarrow> ('w, 'p) run \<Rightarrow>
   (outcome \<times> ('w, 'p) run) option" where
  "Create res plan r =
     (let service = createRequest plan
      in case invoke (CreateServiceCall service) (CreateService (client res) service) r of
           (Inl err, r1) \<Rightarrow>
             Some (Returned
                     \<lparr>Diagnostics =
                        [ErrorDiag ''Error creating service''
                           (''Could not create service, unexpected error: '' @ err)],
                      StateSet = None\<rparr>, r1)
         | (Inr (s0, generated), r1) \<Rightarrow>
             (case pollService res (svc_Id s0) r1 of
                None \<Rightarrow> None
              | Some (Inl err, r2) \<Rightarrow>
                  Some (Returned
                          \<lparr>Diagnostics =
                             [ErrorDiag ''Error retrieving service state''
                                (''Could not retrieve service state after creation, unexpected error: '' @ err)],
                           StateSet = None\<rparr>, r2)
              | Some (Inr s, r2) \<Rightarrow> Some (createPassword res plan service s generated r2)))"

section \<open>A concrete remote system\<close>

text \<open>
  The end-to-end scenario of the spec: a production service on aws in us-east-1 with
  one access entry. The remote state is a counter of the fetches made so far; the
  service is reported as provisioning by the create call and the first two fetches
  and as running afterwards.
\<close>

definition exService :: Service where
  "exService =
     \<lparr>svc_Id = ''svc-1'', svc_Name = ''svc1'', svc_Provider = ''aws'',
      svc_Region = ''us-east-1'', svc_Tier = ''production'', svc_IdleScaling = True,
      svc_IpAccessList = [\<lparr>ipa_Source = ''0.0.0.0'', ipa_Description = ''Test IP''\<rparr>],
      svc_MinTotalMemoryGb = 24, svc_MaxTotalMemoryGb = 360, svc_IdleTimeoutMinutes = 5,
      svc_State = ''running'',
      svc_Endpoints = [\<lparr>ep_Protocol = ''https'', ep_Host = ''svc-1.example'', ep_Port = 8443\<rparr>]\<rparr>"

text \<open>The remote system applies a general update and a scaling update to the service.\<close>

definition exApplyUpdate :: "ServiceUpdate \<Rightarrow> Service \<Rightarrow> Service" where
  "exApplyUpdate u s =
     s\<lparr>svc_Name := (if upd_Name u = [] then svc_Name s else upd_Name u),
       svc_IpAccessList :=
         (case upd_IpAccessList u of
            None \<Rightarrow> svc_IpAccessList s
          | Some d \<Rightarrow> filter (\<lambda>a. a \<notin> set (iau_Remove d)) (svc_IpAccessList s) @ iau_Add d)\<rparr>"

definition exApplyScaling :: "ServiceScalingUpdate \<Rightarrow> Service \<Rightarrow> Service" where
  "exApplyScaling u s =
     s\<lparr>svc_IdleScaling := (case scl_IdleScaling u of None \<Rightarrow> svc_IdleScaling s | Some b \<Rightarrow> b),
       svc_MinTotalMemoryGb :=
         (if scl_MinTotalMemoryGb u = 0 then svc_MinTotalMemoryGb s else scl_MinTotalMemoryGb u),
       svc_MaxTotalMemoryGb :=
         (if scl_MaxTotalMemoryGb u = 0 then svc_MaxTotalMemoryGb s else scl_MaxTotalMemoryGb u),
       svc_IdleTimeoutMinutes :=
         (if scl_IdleTimeoutMinutes u = 0 then svc_IdleTimeoutMinutes s else scl_IdleTimeoutMinutes u)\<rparr>"

definition exClient :: "(nat, string) Client" where
  "exClient =
     \<lparr>CreateService = (\<lambda>service w.
        (Inr (exService\<lparr>svc_State := ''provisioning'', svc_Endpoints := []\<rparr>, ''generated''), w)),
      GetService = (\<lambda>ident w.
        (Inr (if w < 2 then exService\<lparr>svc_State := ''provisioning''\<rparr> else exService), Suc w)),
      UpdateService = (\<lambda>ident u w. (Inr (exApplyUpdate u exService), w)),
      UpdateServiceScaling = (\<lambda>ident u w. (Inr (exApplyScaling u exService), w)),
      UpdateServicePassword = (\<lambda>ident body w.
        (Inr \<lparr>pur_Password = (if body = [] then ''generated'' else [])\<rparr>, w)),
      DeleteService = (\<lambda>ident w. (Inr (), w))\<rparr>"

definition exResource :: "(nat, string) serviceResource" where
  "exResource =
     \<lparr>client = exClient,
      ServicePasswordUpdateFromPlainPassword = (\<lambda>password. password),
      quoteEscape = (\<lambda>v. v),
      timeNow = (\<lambda>w. ''Tuesday, 03-Nov-26 10:00:00 UTC'')\<rparr>"

definition exRun :: "(nat, string) run" where
  "exRun = \<lparr>world = 0, trace = []\<rparr>"

text \<open>The plan of the scenario, before creation: no credential is given.\<close>

definition exPlan :: serviceResourceModel where
  "exPlan =
     \<lparr>mdl_ID = Unknown, mdl_Name = StringValue ''svc1'', mdl_Password = Unknown,
      mdl_Endpoints = Unknown, mdl_CloudProvider = StringValue ''aws'',
      mdl_Region = StringValue ''us-east-1'', mdl_Tier = StringValue ''production'',
      mdl_IdleScaling = BoolValue True,
      mdl_IpAccessList =
        [\<lparr>ipm_Source = StringValue ''0.0.0.0'', ipm_Description = StringValue ''Test IP''\<rparr>],
      mdl_MinTotalMemoryGb = Int64Value 24, mdl_MaxTotalMemoryGb = Int64Value 360,
      mdl_IdleTimeoutMinutes = Int64Value 5, mdl_LastUpdated = Unknown\<rparr>"

text \<open>The prior state of an update: the service as observed, with the credential \<^verbatim>\<open>secret\<close>.\<close>

definition exState :: serviceResourceModel where
  "exState =
     exPlan\<lparr>mdl_ID := StringValue ''svc-1'', mdl_Password := StringValue ''secret'',
            mdl_Endpoints := Known (map toEndpointObject (svc_Endpoints exService)),
            mdl_LastUpdated := StringValue ''Monday, 02-Nov-26 10:00:00 UTC''\<rparr>"

text \<open>What a run reports: the state it set, and the calls it issued.\<close>

definition stateOf :: "outcome \<times> ('w, 'p) run \<Rightarrow> serviceResourceModel option" where
  "stateOf x = (case fst x of Returned resp \<Rightarrow> StateSet resp | Panicked p \<Rightarrow> None)"

definition callsOf :: "outcome \<times> ('w, 'p) run \<Rightarrow> 'p call list" where
  "callsOf x = map fst (trace (snd x))"

section \<open>Observations on a run\<close>

definition diagnosticPath :: "diagnostic \<Rightarrow> string option" where
  "diagnosticPath d = (case d of AttributeError p _ _ \<Rightarrow> Some p | ErrorDiag _ _ \<Rightarrow> None)"

text \<open>The three update calls of \<^verbatim>\<open>Update\<close>, by kind.\<close>

datatype callKind = GeneralUpdate | ScalingUpdate | CredentialUpdate | OtherCall

fun kindOf :: "'p call \<Rightarrow> callKind" where
  "kindOf (UpdateServiceCall i u) = GeneralUpdate"
| "kindOf (UpdateServiceScalingCall i u) = ScalingUpdate"
| "kindOf (UpdateServicePasswordCall i b) = CredentialUpdate"
| "kindOf (CreateServiceCall s) = OtherCall"
| "kindOf (GetServiceCall i) = OtherCall"
| "kindOf (DeleteServiceCall i) = OtherCall"

text \<open>The calls that an operation started in the run \<open>r\<close> added to the trace.\<close>

definition issued :: "('w, 'p) run \<Rightarrow> outcome \<times> ('w, 'p) run \<Rightarrow> ('p call \<times> bool) list" where
  "issued r x = drop (length (trace r)) (trace (snd x))"

text \<open>The operation returned with an error diagnostic and set no state.\<close>

definition errorReturn :: "outcome \<Rightarrow> bool" where
  "errorReturn out =
     (case out of
        Returned resp \<Rightarrow> HasError (Diagnostics resp) \<and> StateSet resp = None
      | Panicked p \<Rightarrow> False)"

definition stopsAtFailure :: "callKind list \<Rightarrow> ('w, 'p) run \<Rightarrow> outcome \<times> ('w, 'p) run \<Rightarrow> bool" where
  "stopsAtFailure ks r x =
     (trace (snd x) = trace r @ issued r x
      \<and> subseq (map (kindOf \<circ> fst) (issued r x)) ks
      \<and> list_all (\<lambda>e. \<not> snd e) (butlast (issued r x))
      \<and> (\<not> list_all (\<lambda>e. \<not> snd e) (issued r x) \<longrightarrow> errorReturn (fst x)))"

text \<open>A remote system as \<open>exResource\<close>, but whose scaling update fails.\<close>

definition exScalingDown :: "(nat, string) serviceResource" where
  "exScalingDown =
     exResource\<lparr>client := exClient
       \<lparr>UpdateServiceScaling := (\<lambda>ident u w. (Inl ''503 Service Unavailable'', w))\<rparr>\<rparr>"

section \<open>Facts about the stages of Update\<close>

lemmas ex_defs = exResource_def exClient_def exRun_def exPlan_def exState_def exService_def
  exApplyUpdate_def exApplyScaling_def exScalingDown_def

lemmas update_defs = Update_def updateScaling_def updatePassword_def updateWriteBack_def
  immutableDiagnostics_def HasError_def serviceUpdateOf_def scalingUpdateOf_def equal_def
  diffArrays_def invoke_def toIpAccess_def toIpAccessModel_def ipAccessKey_def Sprintf_q_def

lemma updateWriteBack_run: "snd (updateWriteBack res plan diags sp password r) = r"
  by (simp add: updateWriteBack_def split: option.splits sum.splits)

lemma updatePassword_unchanged:
  "mdl_Password plan = mdl_Password state \<Longrightarrow> snd (updatePassword res plan state diags sp r) = r"
  by (simp add: updatePassword_def Let_def updateWriteBack_run)

lemma invoke_trace: "trace (snd (invoke c f r)) = trace r @ [(c, isl (fst (f (world r))))]"
  by (simp add: invoke_def split: prod.splits)

lemma invoke_cases:
  obtains (failed) err r' where "invoke c f r = (Inl err, r')" "trace r' = trace r @ [(c, True)]"
        | (ok) v r' where "invoke c f r = (Inr v, r')" "trace r' = trace r @ [(c, False)]"
proof (cases "f (world r)")
  case (Pair res w')
  then show ?thesis
    by (cases res) (auto simp add: invoke_def intro: failed ok)
qed

lemma stops_none: "snd x = r \<Longrightarrow> stopsAtFailure ks r x"
  by (simp add: stopsAtFailure_def issued_def)

lemma stops_failed:
  "trace r' = trace r @ [(c, True)] \<Longrightarrow> kindOf c \<in> set ks \<Longrightarrow> errorReturn out
   \<Longrightarrow> stopsAtFailure ks r (out, r')"
  by (simp add: stopsAtFailure_def issued_def subseq_singleton_left)

lemma stops_step:
  assumes t: "trace r' = trace r @ [(c, False)]" and s: "stopsAtFailure ks r' x"
  shows "stopsAtFailure (kindOf c # ks) r x"
proof -
  define new where "new = issued r' x"
  from s t have e: "trace (snd x) = trace r @ (c, False) # new"
    by (simp add: stopsAtFailure_def new_def)
  have i: "issued r x = (c, False) # new"
    unfolding issued_def e by simp
  from s have "subseq (map (kindOf \<circ> fst) new) ks"
    and "list_all (\<lambda>e. \<not> snd e) (butlast new)"
    and "\<not> list_all (\<lambda>e. \<not> snd e) new \<longrightarrow> errorReturn (fst x)"
    by (simp_all add: stopsAtFailure_def new_def)
  then show ?thesis
    unfolding stopsAtFailure_def i e by simp
qed

lemma stops_skip: "stopsAtFailure ks r x \<Longrightarrow> stopsAtFailure (k # ks) r x"
  by (simp add: stopsAtFailure_def list_emb_Cons)

lemma updatePassword_stops:
  "stopsAtFailure [CredentialUpdate] r (updatePassword res plan state diags sp r)"
proof (cases "mdl_Password plan \<noteq> mdl_Password state")
  case False
  then show ?thesis
    by (simp add: stops_none updatePassword_unchanged)
next
  case True
  let ?pw = "ValueString (mdl_Password plan)"
  let ?body = "ServicePasswordUpdateFromPlainPassword res ?pw"
  let ?id = "ValueString (mdl_ID state)"
  show ?thesis
  proof (cases rule: invoke_cases [where c = "UpdateServicePasswordCall ?id ?body"
        and f = "UpdateServicePassword (client res) ?id ?body" and r = r])
    case (failed err r')
    then show ?thesis using True
      by (simp add: updatePassword_def Let_def stops_failed errorReturn_def HasError_def)
  next
    case (ok v r')
    have "stopsAtFailure [] r'
            (updateWriteBack res plan diags sp
               (if length (pur_Password v) > 0 then pur_Password v else ?pw) r')"
      by (rule stops_none) (rule updateWriteBack_run)
    from stops_step [OF ok(2) this] show ?thesis using True ok(1)
      by (simp add: updatePassword_def Let_def)
  qed
qed

lemma updateScaling_stops:
  "stopsAtFailure [ScalingUpdate, CredentialUpdate] r (updateScaling res plan state diags sp r)"
proof (cases "snd (scalingUpdateOf plan state)")
  case False
  then show ?thesis
    by (simp add: updateScaling_def Let_def split_beta stops_skip updatePassword_stops)
next
  case True
  let ?u = "fst (scalingUpdateOf plan state)"
  let ?id = "ValueString (mdl_ID state)"
  show ?thesis
  proof (cases rule: invoke_cases [where c = "UpdateServiceScalingCall ?id ?u"
        and f = "UpdateServiceScaling (client res) ?id ?u" and r = r])
    case (failed err r')
    then show ?thesis using True
      by (simp add: updateScaling_def Let_def split_beta stops_failed errorReturn_def HasError_def)
  next
    case (ok v r')
    from stops_step [OF ok(2) updatePassword_stops] show ?thesis using True ok(1)
      by (simp add: updateScaling_def Let_def split_beta)
  qed
qed

lemma Update_stops:
  "stopsAtFailure [GeneralUpdate, ScalingUpdate, CredentialUpdate] r (Update res plan state r)"
proof (cases "HasError (immutableDiagnostics plan state)")
  case True
  then show ?thesis by (simp add: Update_def Let_def stops_none)
next
  case noViolation: False
  show ?thesis
  proof (cases "snd (serviceUpdateOf plan state)")
    case False
    then show ?thesis using noViolation
      by (simp add: Update_def Let_def split_beta stops_skip updateScaling_stops)
  next
    case True
    let ?u = "fst (serviceUpdateOf plan state)"
    let ?id = "ValueString (mdl_ID state)"
    show ?thesis
    proof (cases rule: invoke_cases [where c = "UpdateServiceCall ?id ?u"
          and f = "UpdateService (client res) ?id ?u" and r = r])
      case (failed err r')
      then show ?thesis using True noViolation
        by (simp add: Update_def Let_def split_beta stops_failed errorReturn_def HasError_def)
    next
      case (ok v r')
      from stops_step [OF ok(2) updateScaling_stops] show ?thesis using True ok(1) noViolation
        by (simp add: Update_def Let_def split_beta)
    qed
  qed
qed

section \<open>The concrete remote system during creation\<close>

lemma CreateService_ex:
  "CreateService (client exResource) service w =
     (Inr (exService\<lparr>svc_State := ''provisioning'', svc_Endpoints := []\<rparr>, ''generated''), w)"
  by (simp add: exResource_def exClient_def)

text \<open>The loop fetches three times: the first two fetches report \<^verbatim>\<open>provisioning\<close>.\<close>

lemma pollService_ex:
  "pollService exResource ''svc-1'' \<lparr>world = 0, trace = t\<rparr> =
     Some (Inr exService,
           \<lparr>world = 3, trace = t @ [(GetServiceCall ''svc-1'', False), (GetServiceCall ''svc-1'', False),
                                     (GetServiceCall ''svc-1'', False)]\<rparr>)"
  apply (subst pollService.simps, simp add: invoke_def ex_defs)
  apply (subst pollService.simps, simp add: invoke_def ex_defs)
  apply (subst pollService.simps, simp add: invoke_def ex_defs)
  done

section \<open>The scaling call\<close>

text \<open>
  C1, as the code has it. When the idle timeout is the only field of the plan that
  differs from the prior state, \<^verbatim>\<open>Update\<close> issues exactly one remote call, the
  scaling update. Its idle-scaling field is the value of the prior state and its
  idle-timeout field is the value of the plan; its two memory fields are zero,
  since lines 431 to 438 set a memory field only when it changed.
\<close>

theorem Update_only_idle_timeout:
  assumes "mdl_CloudProvider plan = mdl_CloudProvider state"
    and "mdl_Region plan = mdl_Region state"
    and "mdl_Tier plan = mdl_Tier state"
    and "mdl_Name plan = mdl_Name state"
    and "equal (mdl_IpAccessList plan) (mdl_IpAccessList state)"
    and "mdl_IdleScaling plan = mdl_IdleScaling state"
    and "mdl_MinTotalMemoryGb plan = mdl_MinTotalMemoryGb state"
    and "mdl_MaxTotalMemoryGb plan = mdl_MaxTotalMemoryGb state"
    and "mdl_Password plan = mdl_Password state"
    and "mdl_IdleTimeoutMinutes plan \<noteq> mdl_IdleTimeoutMinutes state"
  shows "callsOf (Update res plan state r) =
           map fst (trace r) @
           [UpdateServiceScalingCall (ValueString (mdl_ID state))
              \<lparr>scl_IdleScaling = ValueBoolPointer (mdl_IdleScaling state),
               scl_MinTotalMemoryGb = 0, scl_MaxTotalMemoryGb = 0,
               scl_IdleTimeoutMinutes = ValueInt64 (mdl_IdleTimeoutMinutes plan)\<rparr>]"
proof -
  let ?u = "\<lparr>scl_IdleScaling = ValueBoolPointer (mdl_IdleScaling state),
               scl_MinTotalMemoryGb = 0, scl_MaxTotalMemoryGb = 0,
               scl_IdleTimeoutMinutes = ValueInt64 (mdl_IdleTimeoutMinutes plan)\<rparr>"
  let ?id = "ValueString (mdl_ID state)"
  have v: "\<not> HasError (immutableDiagnostics plan state)"
    using assms by (simp add: immutableDiagnostics_def HasError_def)
  have su: "serviceUpdateOf plan state = (\<lparr>upd_Name = [], upd_IpAccessList = None\<rparr>, False)"
    using assms by (simp add: serviceUpdateOf_def)
  have sc: "scalingUpdateOf plan state = (?u, True)"
    using assms by (simp add: scalingUpdateOf_def)
  have "snd (Update res plan state r) =
        snd (invoke (UpdateServiceScalingCall ?id ?u) (UpdateServiceScaling (client res) ?id ?u) r)"
    using v su sc assms(9)
    by (simp add: Update_def updateScaling_def Let_def updatePassword_unchanged split: prod.split sum.split)
  then show ?thesis
    by (simp add: callsOf_def invoke_trace)
qed

text \<open>The prior state of the scenario, with the idle timeout raised from 5 to 10 minutes.\<close>

theorem Update_only_idle_timeout_witness:
  "mdl_IdleTimeoutMinutes (exState\<lparr>mdl_IdleTimeoutMinutes := Int64Value 10\<rparr>)
     \<noteq> mdl_IdleTimeoutMinutes exState
   \<and> callsOf (Update exResource (exState\<lparr>mdl_IdleTimeoutMinutes := Int64Value 10\<rparr>) exState exRun) =
       [UpdateServiceScalingCall ''svc-1''
          \<lparr>scl_IdleScaling = Some True, scl_MinTotalMemoryGb = 0, scl_MaxTotalMemoryGb = 0,
           scl_IdleTimeoutMinutes = 10\<rparr>]"
  using Update_only_idle_timeout
    [of "exState\<lparr>mdl_IdleTimeoutMinutes := Int64Value 10\<rparr>" exState exResource exRun]
  by (simp add: equal_def exState_def exPlan_def exRun_def)

text \<open>
  C1, as the claim has it, fails on that input: the prior state holds 24 and 360 as
  the memory bounds, and the one scaling call carries zero for both.
\<close>

theorem Update_scaling_carry_over_counterexample:
  "callsOf (Update exResource (exState\<lparr>mdl_IdleTimeoutMinutes := Int64Value 10\<rparr>) exState exRun) =
     [UpdateServiceScalingCall ''svc-1''
        \<lparr>scl_IdleScaling = Some True, scl_MinTotalMemoryGb = 0, scl_MaxTotalMemoryGb = 0,
         scl_IdleTimeoutMinutes = 10\<rparr>]
   \<and> ValueInt64 (mdl_MinTotalMemoryGb exState) = 24
   \<and> ValueInt64 (mdl_MaxTotalMemoryGb exState) = 360"
  by (simp add: callsOf_def update_defs ex_defs)

section \<open>The credential\<close>

text \<open>
  C2. The credential is the only field that differs and the password call succeeds:
  no call has assigned the pointer \<open>s\<close>, and line 475 reads \<^verbatim>\<open>s.Id\<close> through it. The
  operation panics after the password call and sets no state.
\<close>

theorem Update_credential_only_nil_dereference:
  "Update exResource (exState\<lparr>mdl_Password := StringValue ''rotated''\<rparr>) exState exRun =
     (Panicked NilPointerDereference,
      \<lparr>world = 0, trace = [(UpdateServicePasswordCall ''svc-1'' ''rotated'', False)]\<rparr>)"
  by (simp add: update_defs ex_defs)

text \<open>
  C3. The plan of the scenario carries no credential and the create call returns
  the generated credential \<^verbatim>\<open>generated\<close>. Line 222 assigns the empty credential of
  the plan to the variable that held it, so the state records the empty string.
\<close>

theorem Create_generated_credential_lost:
  "map_sum id snd (fst (CreateService (client exResource) (createRequest exPlan) (world exRun)))
     = Inr ''generated''
   \<and> ValueString (mdl_Password exPlan) = []
   \<and> map_option (map_option mdl_Password \<circ> stateOf) (Create exResource exPlan exRun)
     = Some (Some (StringValue []))"
  by (simp add: Create_def Let_def createPassword_def createWriteBack_def stateOf_def invoke_def
      toIpAccessModel_def CreateService_ex pollService_ex exRun_def exPlan_def exService_def)

section \<open>Endpoints\<close>

text \<open>
  C4. The last payload fetched by the polling loop has one endpoint; the state that
  \<^verbatim>\<open>Create\<close> records has the empty endpoint list, that of the request body
  (line 252 ranges over \<^verbatim>\<open>service.Endpoints\<close>, not \<^verbatim>\<open>s.Endpoints\<close>).
\<close>

theorem Create_endpoints_from_request:
  "map_option (map_sum id svc_Endpoints \<circ> fst) (pollService exResource ''svc-1'' exRun)
     = Some (Inr [\<lparr>ep_Protocol = ''https'', ep_Host = ''svc-1.example'', ep_Port = 8443\<rparr>])
   \<and> map_option (map_option mdl_Endpoints \<circ> stateOf) (Create exResource exPlan exRun)
     = Some (Some (Known []))"
  by (simp add: Create_def Let_def createPassword_def createWriteBack_def createRequest_def stateOf_def
      invoke_def toIpAccessModel_def CreateService_ex pollService_ex exRun_def exPlan_def
      exService_def)

section \<open>Immutable fields\<close>

text \<open>
  C5. When the cloud provider, the region or the tier of the plan differs from the
  prior state, \<^verbatim>\<open>Update\<close> returns with error diagnostics and sets no state, the run
  (remote state and trace of calls) is unchanged, so no remote call is issued, and
  the diagnostics are attribute errors that name exactly the fields that differ,
  all of them.
\<close>

theorem Update_immutable_violation:
  assumes "mdl_CloudProvider plan \<noteq> mdl_CloudProvider state
           \<or> mdl_Region plan \<noteq> mdl_Region state
           \<or> mdl_Tier plan \<noteq> mdl_Tier state"
  shows "Update res plan state r =
           (Returned \<lparr>Diagnostics = immutableDiagnostics plan state, StateSet = None\<rparr>, r)
         \<and> HasError (immutableDiagnostics plan state)
         \<and> (\<forall>d \<in> set (immutableDiagnostics plan state). \<exists>p sm dt. d = AttributeError p sm dt)
         \<and> (Some ''cloud_provider'' \<in> diagnosticPath ` set (immutableDiagnostics plan state)
              \<longleftrightarrow> mdl_CloudProvider plan \<noteq> mdl_CloudProvider state)
         \<and> (Some ''region'' \<in> diagnosticPath ` set (immutableDiagnostics plan state)
              \<longleftrightarrow> mdl_Region plan \<noteq> mdl_Region state)
         \<and> (Some ''tier'' \<in> diagnosticPath ` set (immutableDiagnostics plan state)
              \<longleftrightarrow> mdl_Tier plan \<noteq> mdl_Tier state)"
proof -
  have e: "HasError (immutableDiagnostics plan state)"
    using assms by (auto simp add: immutableDiagnostics_def HasError_def)
  then have "Update res plan state r =
      (Returned \<lparr>Diagnostics = immutableDiagnostics plan state, StateSet = None\<rparr>, r)"
    by (simp add: Update_def Let_def)
  moreover have "\<forall>d \<in> set (immutableDiagnostics plan state). \<exists>p sm dt. d = AttributeError p sm dt"
    by (auto simp add: immutableDiagnostics_def)
  moreover have "Some ''cloud_provider'' \<in> diagnosticPath ` set (immutableDiagnostics plan state)
      \<longleftrightarrow> mdl_CloudProvider plan \<noteq> mdl_CloudProvider state"
    by (auto simp add: immutableDiagnostics_def diagnosticPath_def)
  moreover have "Some ''region'' \<in> diagnosticPath ` set (immutableDiagnostics plan state)
      \<longleftrightarrow> mdl_Region plan \<noteq> mdl_Region state"
    by (auto simp add: immutableDiagnostics_def diagnosticPath_def)
  moreover have "Some ''tier'' \<in> diagnosticPath ` set (immutableDiagnostics plan state)
      \<longleftrightarrow> mdl_Tier plan \<noteq> mdl_Tier state"
    by (auto simp add: immutableDiagnostics_def diagnosticPath_def)
  ultimately show ?thesis using e by blast
qed

text \<open>
  The scenario of the spec: only the tier of the plan differs. The single diagnostic
  names the tier, and the run is the one the operation started in.
\<close>

theorem Update_immutable_violation_witness:
  "mdl_Tier (exState\<lparr>mdl_Tier := StringValue ''development''\<rparr>) \<noteq> mdl_Tier exState
   \<and> Update exResource (exState\<lparr>mdl_Tier := StringValue ''development''\<rparr>) exState exRun =
       (Returned
          \<lparr>Diagnostics =
             [AttributeError ''tier'' ''Invalid Update''
                ''ClickHouse does not support changing service tiers''],
           StateSet = None\<rparr>, exRun)"
  using Update_immutable_violation
    [of "exState\<lparr>mdl_Tier := StringValue ''development''\<rparr>" exState exResource exRun]
  by (simp add: immutableDiagnostics_def exState_def exPlan_def)

section \<open>The access list\<close>

text \<open>
  When the access list is the only field of the plan that differs from the
  prior state, \<^verbatim>\<open>Update\<close> issues exactly one remote call, the general update, with
  an empty name and with the change of the access list as the two lists of the
  difference: to add, the entries of the plan whose key is the key of no entry of the
  prior state; to remove, the entries of the prior state whose key is the key of no
  entry of the plan. No scaling call and no credential call is issued.
\<close>

lemma Update_only_access_list:
  assumes "mdl_CloudProvider plan = mdl_CloudProvider state"
    and "mdl_Region plan = mdl_Region state"
    and "mdl_Tier plan = mdl_Tier state"
    and "mdl_Name plan = mdl_Name state"
    and "\<not> equal (mdl_IpAccessList plan) (mdl_IpAccessList state)"
    and "mdl_IdleScaling plan = mdl_IdleScaling state"
    and "mdl_MinTotalMemoryGb plan = mdl_MinTotalMemoryGb state"
    and "mdl_MaxTotalMemoryGb plan = mdl_MaxTotalMemoryGb state"
    and "mdl_IdleTimeoutMinutes plan = mdl_IdleTimeoutMinutes state"
    and "mdl_Password plan = mdl_Password state"
  shows "callsOf (Update res plan state r) =
           map fst (trace r) @
           [UpdateServiceCall (ValueString (mdl_ID state))
              \<lparr>upd_Name = [],
               upd_IpAccessList = Some
                 \<lparr>iau_Add =
                    filter (\<lambda>b. ipAccessKey b \<notin> ipAccessKey ` set (map toIpAccess (mdl_IpAccessList state)))
                      (map toIpAccess (mdl_IpAccessList plan)),
                  iau_Remove =
                    filter (\<lambda>a. ipAccessKey a \<notin> ipAccessKey ` set (map toIpAccess (mdl_IpAccessList plan)))
                      (map toIpAccess (mdl_IpAccessList state))\<rparr>\<rparr>]"
  (is "_ = _ @ [UpdateServiceCall ?id ?u]")
proof -
  have v: "\<not> HasError (immutableDiagnostics plan state)"
    using assms by (simp add: immutableDiagnostics_def HasError_def)
  have su: "serviceUpdateOf plan state = (?u, True)"
    using assms by (simp add: serviceUpdateOf_def diffArrays_def)
  have sc: "snd (scalingUpdateOf plan state) = False"
    using assms by (simp add: scalingUpdateOf_def)
  have "snd (Update res plan state r) =
        snd (invoke (UpdateServiceCall ?id ?u) (UpdateService (client res) ?id ?u) r)"
    using v su sc assms(10)
    by (simp add: Update_def updateScaling_def Let_def split_beta updatePassword_unchanged split: prod.split sum.split)
  then show ?thesis
    by (simp add: callsOf_def invoke_trace)
qed

text \<open>The example of the spec: one entry is added to a list of one entry.\<close>

lemma Update_only_access_list_example:
  "\<not> equal
       [\<lparr>ipm_Source = StringValue ''1.2.3.4/32'', ipm_Description = StringValue ''A''\<rparr>,
        \<lparr>ipm_Source = StringValue ''5.6.7.8/32'', ipm_Description = StringValue ''B''\<rparr>]
       [\<lparr>ipm_Source = StringValue ''1.2.3.4/32'', ipm_Description = StringValue ''A''\<rparr>]
   \<and> callsOf (Update exResource
        (exState\<lparr>mdl_IpAccessList :=
           [\<lparr>ipm_Source = StringValue ''1.2.3.4/32'', ipm_Description = StringValue ''A''\<rparr>,
            \<lparr>ipm_Source = StringValue ''5.6.7.8/32'', ipm_Description = StringValue ''B''\<rparr>]\<rparr>)
        (exState\<lparr>mdl_IpAccessList :=
           [\<lparr>ipm_Source = StringValue ''1.2.3.4/32'', ipm_Description = StringValue ''A''\<rparr>]\<rparr>)
        exRun) =
       [UpdateServiceCall ''svc-1''
          \<lparr>upd_Name = [],
           upd_IpAccessList = Some
             \<lparr>iau_Add = [\<lparr>ipa_Source = ''5.6.7.8/32'', ipa_Description = ''B''\<rparr>],
              iau_Remove = []\<rparr>\<rparr>]"
  using Update_only_access_list
    [of "exState\<lparr>mdl_IpAccessList :=
           [\<lparr>ipm_Source = StringValue ''1.2.3.4/32'', ipm_Description = StringValue ''A''\<rparr>,
            \<lparr>ipm_Source = StringValue ''5.6.7.8/32'', ipm_Description = StringValue ''B''\<rparr>]\<rparr>"
        "exState\<lparr>mdl_IpAccessList :=
           [\<lparr>ipm_Source = StringValue ''1.2.3.4/32'', ipm_Description = StringValue ''A''\<rparr>]\<rparr>"
        exResource exRun]
  by (simp add: equal_def toIpAccess_def ipAccessKey_def exState_def exPlan_def exRun_def)

text \<open>
  As long as no two different entries of the two lists have the same key, these two
  lists are the differences of the lists as sets of entries.
\<close>

lemma diffArrays_by_entries:
  assumes "inj_on key (set old \<union> set new)"
  shows "set (fst (diffArrays old new key)) = set new - set old"
    and "set (snd (diffArrays old new key)) = set old - set new"
  using assms by (auto simp add: diffArrays_def inj_on_def)

text \<open>
  C6. The prior state lists the entry with source \<^verbatim>\<open>1::2\<close> and description
  \<^verbatim>\<open>3:office\<close>, the plan lists instead the entry with source \<^verbatim>\<open>1::2:3\<close> and
  description \<^verbatim>\<open>office\<close>, and nothing else differs. The two lists differ, so the
  one general update is issued, and no other call; but both entries have the key
  \<^verbatim>\<open>1::2:3:office\<close>, so the call carries nothing to add and nothing to remove, while
  the plan without the prior state is the new entry and the prior state without the
  plan is the old one. The change of the access list is lost.
\<close>

theorem Update_access_list_change_lost:
  "\<not> equal
       [\<lparr>ipm_Source = StringValue ''1::2:3'', ipm_Description = StringValue ''office''\<rparr>]
       [\<lparr>ipm_Source = StringValue ''1::2'', ipm_Description = StringValue ''3:office''\<rparr>]
   \<and> callsOf (Update exResource
        (exState\<lparr>mdl_IpAccessList :=
           [\<lparr>ipm_Source = StringValue ''1::2:3'', ipm_Description = StringValue ''office''\<rparr>]\<rparr>)
        (exState\<lparr>mdl_IpAccessList :=
           [\<lparr>ipm_Source = StringValue ''1::2'', ipm_Description = StringValue ''3:office''\<rparr>]\<rparr>)
        exRun) =
       [UpdateServiceCall ''svc-1''
          \<lparr>upd_Name = [], upd_IpAccessList = Some \<lparr>iau_Add = [], iau_Remove = []\<rparr>\<rparr>]
   \<and> set (map toIpAccess
        [\<lparr>ipm_Source = StringValue ''1::2:3'', ipm_Description = StringValue ''office''\<rparr>])
       - set (map toIpAccess
        [\<lparr>ipm_Source = StringValue ''1::2'', ipm_Description = StringValue ''3:office''\<rparr>]) =
       {\<lparr>ipa_Source = ''1::2:3'', ipa_Description = ''office''\<rparr>}
   \<and> set (map toIpAccess
        [\<lparr>ipm_Source = StringValue ''1::2'', ipm_Description = StringValue ''3:office''\<rparr>])
       - set (map toIpAccess
        [\<lparr>ipm_Source = StringValue ''1::2:3'', ipm_Description = StringValue ''office''\<rparr>]) =
       {\<lparr>ipa_Source = ''1::2'', ipa_Description = ''3:office''\<rparr>}"
  by (simp add: callsOf_def update_defs ex_defs)

text \<open>
  C7. The key of line 397 joins source and description with a colon, so two entries
  with different sources have the same key when the colon is part of a field.
\<close>

theorem ipAccessKey_collision:
  "ipAccessKey \<lparr>ipa_Source = ''2001:db8::1'', ipa_Description = ''office''\<rparr> =
   ipAccessKey \<lparr>ipa_Source = ''2001'', ipa_Description = ''db8::1:office''\<rparr>
   \<and> ipa_Source \<lparr>ipa_Source = ''2001:db8::1'', ipa_Description = ''office''\<rparr> \<noteq>
     ipa_Source \<lparr>ipa_Source = ''2001'', ipa_Description = ''db8::1:office''\<rparr>"
  by (simp add: ipAccessKey_def)

section \<open>Partial application\<close>

text \<open>
  C8. For every \<^verbatim>\<open>Update\<close>: the trace grows by the calls the operation issued; these
  are, in this order and each at most once, the general update, the scaling update
  and the credential update, and no other call (so nothing is rolled back); no call
  but the last one failed; and when a call failed, the operation returned with an
  error diagnostic and set no state. So a failed call is the last call issued.
\<close>

theorem Update_partial_apply:
  "trace (snd (Update res plan state r)) = trace r @ issued r (Update res plan state r)
   \<and> subseq (map (kindOf \<circ> fst) (issued r (Update res plan state r)))
        [GeneralUpdate, ScalingUpdate, CredentialUpdate]
   \<and> list_all (\<lambda>e. \<not> snd e) (butlast (issued r (Update res plan state r)))
   \<and> (\<not> list_all (\<lambda>e. \<not> snd e) (issued r (Update res plan state r))
        \<longrightarrow> errorReturn (fst (Update res plan state r)))"
  using Update_stops [of r res plan state] by (simp add: stopsAtFailure_def)

text \<open>
  The general update succeeds and the scaling update fails: the trace ends with the
  failed scaling call, no credential call follows although the credential differs,
  and the operation returns the error.
\<close>

theorem Update_partial_apply_witness:
  "issued exRun
     (Update exScalingDown
        (exState\<lparr>mdl_Name := StringValue ''svc2'', mdl_IdleTimeoutMinutes := Int64Value 10,
                 mdl_Password := StringValue ''rotated''\<rparr>) exState exRun) =
     [(UpdateServiceCall ''svc-1'' \<lparr>upd_Name = ''svc2'', upd_IpAccessList = None\<rparr>, False),
      (UpdateServiceScalingCall ''svc-1''
         \<lparr>scl_IdleScaling = Some True, scl_MinTotalMemoryGb = 0, scl_MaxTotalMemoryGb = 0,
          scl_IdleTimeoutMinutes = 10\<rparr>, True)]
   \<and> errorReturn (fst (Update exScalingDown
        (exState\<lparr>mdl_Name := StringValue ''svc2'', mdl_IdleTimeoutMinutes := Int64Value 10,
                 mdl_Password := StringValue ''rotated''\<rparr>) exState exRun))"
  using Update_partial_apply [of exScalingDown
      "exState\<lparr>mdl_Name := StringValue ''svc2'', mdl_IdleTimeoutMinutes := Int64Value 10,
               mdl_Password := StringValue ''rotated''\<rparr>" exState exRun]
  by (simp add: issued_def Update_def updateScaling_def immutableDiagnostics_def HasError_def
      serviceUpdateOf_def scalingUpdateOf_def equal_def invoke_def ex_defs)

section \<open>Writing the returned state back\<close>

text \<open>
  C9. The plan and the prior state list no access entry and the remote service holds
  one. \<^verbatim>\<open>Update\<close> (after a change of the name) and \<^verbatim>\<open>Create\<close> both store the returned
  entry at index 0 of the empty slice of the plan, and panic.
\<close>

theorem writeBack_index_out_of_range:
  "Update exResource (exState\<lparr>mdl_Name := StringValue ''svc2'', mdl_IpAccessList := []\<rparr>)
     (exState\<lparr>mdl_IpAccessList := []\<rparr>) exRun =
     (Panicked IndexOutOfRange,
      \<lparr>world = 0,
       trace = [(UpdateServiceCall ''svc-1'' \<lparr>upd_Name = ''svc2'', upd_IpAccessList = None\<rparr>, False)]\<rparr>)
   \<and> map_option fst (Create exResource (exPlan\<lparr>mdl_IpAccessList := []\<rparr>) exRun) =
       Some (Panicked IndexOutOfRange)"
proof -
  have "Update exResource (exState\<lparr>mdl_Name := StringValue ''svc2'', mdl_IpAccessList := []\<rparr>)
     (exState\<lparr>mdl_IpAccessList := []\<rparr>) exRun =
     (Panicked IndexOutOfRange,
      \<lparr>world = 0,
       trace = [(UpdateServiceCall ''svc-1'' \<lparr>upd_Name = ''svc2'', upd_IpAccessList = None\<rparr>, False)]\<rparr>)"
    by (simp add: update_defs ex_defs)
  moreover have "map_option fst (Create exResource (exPlan\<lparr>mdl_IpAccessList := []\<rparr>) exRun) =
       Some (Panicked IndexOutOfRange)"
    by (simp add: Create_def Let_def createPassword_def createWriteBack_def invoke_def
        CreateService_ex pollService_ex exRun_def exPlan_def exService_def)
  ultimately show ?thesis by simp
qed

text \<open>
  C10. The credential of the plan equals that of the prior state, \<^verbatim>\<open>secret\<close>, and
  the name changes. No credential call is issued, and the state records the
  credential in double quotes: line 456 reads it with \<^verbatim>\<open>String()\<close>.
\<close>

theorem Update_unchanged_credential_quoted:
  "mdl_Password (exState\<lparr>mdl_Name := StringValue ''svc2''\<rparr>) = mdl_Password exState
   \<and> mdl_Password exState = StringValue ''secret''
   \<and> callsOf (Update exResource (exState\<lparr>mdl_Name := StringValue ''svc2''\<rparr>) exState exRun) =
       [UpdateServiceCall ''svc-1'' \<lparr>upd_Name = ''svc2'', upd_IpAccessList = None\<rparr>]
   \<and> map_option mdl_Password
       (stateOf (Update exResource (exState\<lparr>mdl_Name := StringValue ''svc2''\<rparr>) exState exRun)) =
       Some (StringValue (CHR 0x22 # ''secret'' @ [CHR 0x22]))"
  by (simp add: callsOf_def stateOf_def update_defs ex_defs)

end
